theory Spec2Isabelle
  imports Main "HOL-Library.Word" "HOL-Library.Sublist"
begin

section \<open>Output shared by the native and the Haxe side\<close>

text \<open>
  Both programs of the guide write to standard output: C code through \<open>printf\<close>, Haxe code
  through \<open>trace\<close>. An output item records which of the two wrote it and the text: for
  \<open>printf\<close> the formatted bytes, for \<open>trace\<close> the message (the position prefix that the
  Haxe compiler adds is left out).
\<close>

datatype out_item = Printf string | Trace string

type_synonym cint = "32 word"

definition digit_char :: "nat \<Rightarrow> char" where
  "digit_char d = ''0123456789'' ! d"

fun dec_digits :: "nat \<Rightarrow> string" where
  "dec_digits n =
     (if n < 10 then [digit_char n] else dec_digits (n div 10) @ [digit_char (n mod 10)])"

declare dec_digits.simps [simp del]

text \<open>The conversion \<open>%d\<close> of \<open>printf\<close>, and Haxe's conversion of an \<open>Int\<close> to a string.\<close>

definition fmt_d :: "int \<Rightarrow> string" where
  "fmt_d i = (if i < 0 then CHR ''-'' # dec_digits (nat (- i)) else dec_digits (nat i))"


section \<open>The foreign function: \<open>Foreign.cpp\<close>\<close>

text \<open>
  \<open>hx/CFFI.h\<close> belongs to hxcpp, not to the guide. Its \<open>value\<close> is the boxed Haxe value;
  the only values that cross the boundary in the example are Haxe \<open>Int\<close>s, which are 32-bit
  on the cpp target, as is the C \<open>int\<close> of \<open>val_int\<close> and \<open>alloc_int\<close>.
\<close>

datatype hx_value = HxInt cint

fun val_int :: "hx_value \<Rightarrow> cint" where
  "val_int (HxInt i) = i"

definition alloc_int :: "cint \<Rightarrow> hx_value" where
  "alloc_int i = HxInt i"

text \<open>
  \<^verbatim>\<open>value CPP_ForeignFunction(value haxeVal)\<close>: standard output is threaded through, the
  increment is the one of a 32-bit \<open>int\<close> (\<open>+\<close> on \<open>32 word\<close> wraps).
\<close>

definition CPP_ForeignFunction :: "hx_value \<Rightarrow> out_item list \<Rightarrow> hx_value \<times> out_item list" where
  "CPP_ForeignFunction haxeVal out =
     (let intVal = val_int haxeVal;
          out1 = out @ [Printf (''CPP: intVal = '' @ fmt_d (sint intVal) @ [CHR 0x0A])];
          intVal1 = intVal + 1;
          returnVal = alloc_int intVal1
      in (returnVal, out1))"

text \<open>\<^verbatim>\<open>DEFINE_PRIM(CPP_ForeignFunction, 1)\<close>: the primitive's name and its number of arguments.\<close>

record prim =
  prim_name :: string
  prim_nargs :: nat

definition DEFINE_PRIM :: "string \<Rightarrow> nat \<Rightarrow> prim" where
  "DEFINE_PRIM name nargs = \<lparr>prim_name = name, prim_nargs = nargs\<rparr>"

definition Foreign_cpp_prim :: prim where
  "Foreign_cpp_prim = DEFINE_PRIM ''CPP_ForeignFunction'' 1"


section \<open>The Haxe client of the foreign function: class \<open>Main\<close>\<close>

text \<open>
  A \<open>Dynamic\<close> function value: called with a list of arguments, it returns a value or throws
  (\<open>None\<close>), and may write to standard output.
\<close>

type_synonym dynfn = "hx_value list \<Rightarrow> out_item list \<Rightarrow> hx_value option \<times> out_item list"

text \<open>
  \<open>cpp.Lib.load\<close> belongs to the Haxe standard library; the client takes it as a parameter:
  given library, primitive and number of arguments it returns the function or throws (\<open>None\<close>).
\<close>

type_synonym lib_load = "string \<Rightarrow> string \<Rightarrow> nat \<Rightarrow> dynfn option"

text \<open>
  The state of the client: standard output, the requests made to \<open>cpp.Lib.load\<close>, and the
  argument lists of the calls made through the field \<open>ForeignFunction\<close>.
\<close>

record client =
  out :: "out_item list"
  loads :: "(string \<times> string \<times> nat) list"
  invocations :: "hx_value list list"

datatype completion = Normal | Thrown

definition trace :: "string \<Rightarrow> client \<Rightarrow> client" where
  "trace msg c = c\<lparr>out := out c @ [Trace msg]\<rparr>"

definition Main_new :: "lib_load \<Rightarrow> client \<Rightarrow> completion \<times> client" where
  "Main_new load c0 =
     (let c1 = trace ''Hello from Main, about to load libforeign library'' c0;
          c2 = c1\<lparr>loads := loads c1 @ [(''libforeign'', ''CPP_ForeignFunction'', 1)]\<rparr>
      in case load ''libforeign'' ''CPP_ForeignFunction'' 1 of
           None \<Rightarrow> (Normal, trace ''Failed to load libforeign.ndll!'' c2)
         | Some ForeignFunction \<Rightarrow>
             (let c3 = c2\<lparr>invocations := invocations c2 @ [[HxInt 2]]\<rparr>
              in case ForeignFunction [HxInt 2] (out c3) of
                   (None, o4) \<Rightarrow> (Thrown, c3\<lparr>out := o4\<rparr>)
                 | (Some a, o4) \<Rightarrow>
                     (Normal,
                      trace (''Main called ForeignFunction(2), returned '' @ fmt_d (sint (val_int a)))
                        (c3\<lparr>out := o4\<rparr>))))"

text \<open>
  The function value that a successful load of the primitive of \<open>Foreign.cpp\<close> gives: a call
  with one argument runs \<open>CPP_ForeignFunction\<close>, a call with another number of arguments throws.
\<close>

definition loaded_prim :: dynfn where
  "loaded_prim args out0 =
     (case args of
        [v] \<Rightarrow> (case CPP_ForeignFunction v out0 of (r, out1) \<Rightarrow> (Some r, out1))
      | _ \<Rightarrow> (None, out0))"

definition load_libforeign :: lib_load where
  "load_libforeign lib name nargs =
     (if lib = ''libforeign'' \<and> name = prim_name Foreign_cpp_prim \<and> nargs = prim_nargs Foreign_cpp_prim
      then Some loaded_prim else None)"

definition load_nothing :: lib_load where
  "load_nothing lib name nargs = None"

text \<open>
  The loader over a library whose native side registered the primitive \<open>p\<close>: a request
  succeeds only for that library, the registered name and the registered number of arguments.
\<close>

definition load_registered :: "prim \<Rightarrow> lib_load" where
  "load_registered p lib name nargs =
     (if lib = ''libforeign'' \<and> name = prim_name p \<and> nargs = prim_nargs p
      then Some loaded_prim else None)"

text \<open>
  For comparison: a loader that hands out the primitive whatever is asked for, and a function
  value that agrees with the primitive on one argument and also answers every other call.
\<close>

definition load_any :: lib_load where
  "load_any lib name nargs = Some loaded_prim"

definition lenient_prim :: dynfn where
  "lenient_prim args out0 =
     (case args of [v] \<Rightarrow> loaded_prim [v] out0 | _ \<Rightarrow> (Some (HxInt 0), out0))"

definition client0 :: client where
  "client0 = \<lparr>out = [], loads = [], invocations = []\<rparr>"


section \<open>The library wrapper: \<open>empty.cpp\<close>\<close>

text \<open>
  The state of the hxcpp runtime inside the library, as far as the guide describes it: whether
  the top of the stack has been registered, whether \<open>hxRunLibrary\<close> has run the Haxe
  \<open>static main\<close> and the static initializers, and what has been written to standard output.
\<close>

record runtime =
  top_of_stack_set :: bool
  haxe_started :: bool
  stdout :: "out_item list"

text \<open>
  \<^verbatim>\<open>extern void hxcpp_set_top_of_stack();\<close> is a function of hxcpp; by the guide it lets
  hxcpp know about the stack, and has to be called before the Haxe code runs.
\<close>

definition hxcpp_set_top_of_stack :: "runtime \<Rightarrow> runtime" where
  "hxcpp_set_top_of_stack s = s\<lparr>top_of_stack_set := True\<rparr>"

text \<open>
  \<^verbatim>\<open>int run_haxe()\<close>. \<^verbatim>\<open>extern const char* hxRunLibrary();\<close> is a function of hxcpp and a
  parameter here: it returns the message of the Haxe exception thrown by the Haxe code, or the
  null pointer (\<open>None\<close>). \<^verbatim>\<open>if(err)\<close> tests the pointer, so an empty message is an error too.
\<close>

definition run_haxe :: "(runtime \<Rightarrow> string option \<times> runtime) \<Rightarrow> runtime \<Rightarrow> cint \<times> runtime" where
  "run_haxe hxRunLibrary s0 =
     (let s1 = hxcpp_set_top_of_stack s0
      in case hxRunLibrary s1 of
           (err, s2) \<Rightarrow>
             (case err of
                Some e \<Rightarrow> (- 1, s2\<lparr>stdout := stdout s2 @ [Printf (''Error '' @ e @ [CHR 0x0A])]\<rparr>)
              | None \<Rightarrow> (0, s2)))"

text \<open>
  The Haxe code of the library is \<open>Empty.hx\<close>, listed in the guide: \<open>static main\<close> traces
  \<open>hello empty library\<close>, \<open>static test\<close> traces \<open>hello test function\<close>, neither throws.
  \<open>hxRunLibrary\<close> for this library runs the static initializers and \<open>main\<close>;
  \<open>Empty_obj::test\<close> is the generated C++ of \<open>test\<close>.
\<close>

definition hxRunLibrary_Empty :: "runtime \<Rightarrow> string option \<times> runtime" where
  "hxRunLibrary_Empty s =
     (None, s\<lparr>haxe_started := True, stdout := stdout s @ [Trace ''hello empty library'']\<rparr>)"

definition Empty_obj_test :: "runtime \<Rightarrow> runtime" where
  "Empty_obj_test s = s\<lparr>stdout := stdout s @ [Trace ''hello test function'']\<rparr>"

text \<open>\<^verbatim>\<open>void empty_test()\<close>.\<close>

definition empty_test :: "runtime \<Rightarrow> runtime" where
  "empty_test s = Empty_obj_test s"

text \<open>A library whose Haxe \<open>static main\<close> throws, for the error branch of \<open>run_haxe\<close>.\<close>

definition hxRunLibrary_throwing :: "runtime \<Rightarrow> string option \<times> runtime" where
  "hxRunLibrary_throwing s = (Some ''boom'', s\<lparr>haxe_started := True\<rparr>)"

definition runtime0 :: runtime where
  "runtime0 = \<lparr>top_of_stack_set = False, haxe_started = False, stdout = []\<rparr>"


section \<open>The platform's dynamic loader\<close>

text \<open>
  \<open>dlopen\<close>, \<open>dlsym\<close> and \<open>dlclose\<close> of \<open>dlfcn.h\<close> are the platform's; the client of the guide
  only calls them. The data of section 3 of the specification: a LibraryHandle identifies an
  opened module, a SymbolReference is bound to a name within a handle, an InvocationResult is
  void, an integer status or an opaque pointer.
\<close>

datatype mode = RTLD_NOW | RTLD_LAZY

datatype InvocationResult = Void | Status cint | Opaque nat

type_synonym entry = "runtime \<Rightarrow> InvocationResult \<times> runtime"

record dynmodule =
  exports :: "(string \<times> entry) list"
  deps_ok :: bool

datatype fs_entry = NotAModule | Module dynmodule

type_synonym LibraryHandle = nat

record SymbolReference =
  owner :: LibraryHandle
  target :: string

datatype hstate = Unopened | Open | Closed

text \<open>
  What the process has asked of the loader, in order: each call of \<open>dlopen\<close> (with the pointer
  it returned), of \<open>dlsym\<close> and of \<open>dlclose\<close> (with the pointer passed), and each entry point
  that was entered through a function pointer.
\<close>

datatype event =
    EvOpen string mode "LibraryHandle option"
  | EvResolve "LibraryHandle option" string
  | EvInvoke SymbolReference
  | EvClose "LibraryHandle option"

text \<open>
  The process: the files that exist, the table of handles given out so far (a handle is its
  index there; every other number is an unopened handle), the paths of modules that are
  referenced elsewhere in the process, the runtime state of the loaded code, and the events.
  A \<open>void*\<close> is an \<open>option\<close>: \<open>None\<close> is the null pointer.
\<close>

record process =
  fs :: "string \<Rightarrow> fs_entry option"
  handles :: "(hstate \<times> string \<times> dynmodule) list"
  pinned :: "string \<Rightarrow> bool"
  rt :: runtime
  events :: "event list"

definition handle_state :: "process \<Rightarrow> LibraryHandle \<Rightarrow> hstate" where
  "handle_state p h = (if h < length (handles p) then fst (handles p ! h) else Unopened)"

definition image :: "process \<Rightarrow> LibraryHandle \<Rightarrow> dynmodule option" where
  "image p h =
     (if h < length (handles p) \<and> fst (handles p ! h) = Open
      then Some (snd (snd (handles p ! h))) else None)"

text \<open>
  Modelled from the spec: what the platform can load is not in the repository. Section 4.1:
  loading fails if the file does not exist, is not a valid module for the platform, or has
  unresolved dependencies.
\<close>

definition loadable :: "process \<Rightarrow> string \<Rightarrow> dynmodule option" where
  "loadable p path =
     (case fs p path of
        None \<Rightarrow> None
      | Some NotAModule \<Rightarrow> None
      | Some (Module m) \<Rightarrow> if deps_ok m then Some m else None)"

text \<open>
  Modelled from the spec: \<open>dlopen\<close> is not in the repository. Section 4.1: it loads the
  module at the path or fails, and the mode does not change the contract. Each successful load
  gives a new handle; the null pointer is returned on failure.
\<close>

definition dlopen :: "string \<Rightarrow> mode \<Rightarrow> process \<Rightarrow> LibraryHandle option \<times> process" where
  "dlopen path flag p =
     (case loadable p path of
        None \<Rightarrow> (None, p\<lparr>events := events p @ [EvOpen path flag None]\<rparr>)
      | Some m \<Rightarrow>
          (let h = length (handles p)
           in (Some h, p\<lparr>handles := handles p @ [(Open, path, m)],
                          events := events p @ [EvOpen path flag (Some h)]\<rparr>)))"

text \<open>
  Modelled from the spec: \<open>dlsym\<close> is not in the repository. Section 4.1: an exported entry
  point is looked up by its exact name, and the lookup fails if no export has that name; with
  a null or a handle that is not open there is no module to look in.
\<close>

definition dlsym :: "LibraryHandle option \<Rightarrow> string \<Rightarrow> process \<Rightarrow> SymbolReference option \<times> process" where
  "dlsym handle name p =
     (let p1 = p\<lparr>events := events p @ [EvResolve handle name]\<rparr>
      in case handle of
           None \<Rightarrow> (None, p1)
         | Some h \<Rightarrow>
             (case image p h of
                None \<Rightarrow> (None, p1)
              | Some m \<Rightarrow>
                  (case map_of (exports m) name of
                     None \<Rightarrow> (None, p1)
                   | Some f \<Rightarrow> (Some \<lparr>owner = h, target = name\<rparr>, p1))))"

text \<open>
  Modelled from the spec: the call through a function pointer that \<open>dlsym\<close> returned is not
  in the repository. Section 4.1: the effects are those of the invoked code, and nothing else
  is checked. Section 8: invoking after the close must fail. The call of a null pointer, or of
  a pointer into a module that is no longer open, runs no entry point: the result is \<open>None\<close>.
\<close>

definition call :: "SymbolReference option \<Rightarrow> process \<Rightarrow> (InvocationResult \<times> process) option" where
  "call fn p =
     (case fn of
        None \<Rightarrow> None
      | Some r \<Rightarrow>
          (case image p (owner r) of
             None \<Rightarrow> None
           | Some m \<Rightarrow>
               (case map_of (exports m) (target r) of
                  None \<Rightarrow> None
                | Some f \<Rightarrow>
                    (case f (rt p) of
                       (res, s) \<Rightarrow> Some (res, p\<lparr>rt := s, events := events p @ [EvInvoke r]\<rparr>)))))"

text \<open>
  Modelled from the spec: \<open>dlclose\<close> is not in the repository. Section 4.1: it releases the
  module, and fails if the platform reports the module still referenced elsewhere. The result
  is 0 on success, as for the platform's function.
\<close>

definition dlclose :: "LibraryHandle option \<Rightarrow> process \<Rightarrow> int \<times> process" where
  "dlclose handle p =
     (let p1 = p\<lparr>events := events p @ [EvClose handle]\<rparr>
      in case handle of
           None \<Rightarrow> (- 1, p1)
         | Some h \<Rightarrow>
             if handle_state p h = Open \<and> \<not> pinned p (fst (snd (handles p ! h)))
             then (0, p1\<lparr>handles := (handles p)[h := (Closed, snd (handles p ! h))]\<rparr>)
             else (- 1, p1))"


section \<open>The client: \<open>main\<close>\<close>

text \<open>
  \<^verbatim>\<open>int main()\<close> checks no result. The pointers are called through the type \<open>VoidFN\<close>, so a
  returned status is dropped. Where the called pointer runs no entry point the program does
  not go on (\<open>Crash\<close>).
\<close>

datatype exit = Exit int | Crash

definition main :: "process \<Rightarrow> exit \<times> process" where
  "main p0 =
     (case dlopen ''../2-shared/libEmpty.dylib'' RTLD_NOW p0 of
        (handle, p1) \<Rightarrow>
     (case dlsym handle ''run_haxe'' p1 of
        (init, p2) \<Rightarrow>
     (let init_fn = init in
      case call init_fn p2 of
        None \<Rightarrow> (Crash, p2)
      | Some (_, p3) \<Rightarrow>
     (case dlsym handle ''empty_test'' p3 of
        (test, p4) \<Rightarrow>
     (let test_fn = test in
      case call test_fn p4 of
        None \<Rightarrow> (Crash, p4)
      | Some (_, p5) \<Rightarrow>
     (case dlclose handle p5 of
        (_, p6) \<Rightarrow> (Exit 0, p6)))))))"

text \<open>The events that a run of \<open>main\<close> adds.\<close>

definition main_trace :: "process \<Rightarrow> event list" where
  "main_trace p = drop (length (events p)) (events (snd (main p)))"

text \<open>The steps of the sequential scenario, without the pointers.\<close>

datatype step = StepOpen | StepResolve string | StepInvoke string | StepClose

fun step_of :: "event \<Rightarrow> step" where
  "step_of (EvOpen path flag h) = StepOpen"
| "step_of (EvResolve h name) = StepResolve name"
| "step_of (EvInvoke r) = StepInvoke (target r)"
| "step_of (EvClose h) = StepClose"

definition scenario :: "step list" where
  "scenario =
     [StepOpen, StepResolve ''run_haxe'', StepInvoke ''run_haxe'',
      StepResolve ''empty_test'', StepInvoke ''empty_test'', StepClose]"

text \<open>
  The module that \<open>empty.cpp\<close> and \<open>Empty.hx\<close> build: its two exported entry points, as
  \<open>nm\<close> lists them in the guide.
\<close>

definition libEmpty :: dynmodule where
  "libEmpty =
     \<lparr>exports =
        [(''empty_test'', \<lambda>s. (Void, empty_test s)),
         (''run_haxe'', \<lambda>s. case run_haxe hxRunLibrary_Empty s of (r, s1) \<Rightarrow> (Status r, s1))],
      deps_ok = True\<rparr>"

definition process0 :: process where
  "process0 =
     \<lparr>fs = [''../2-shared/libEmpty.dylib'' \<mapsto> Module libEmpty],
      handles = [], pinned = (\<lambda>path. False), rt = runtime0, events = []\<rparr>"

definition process_nolib :: process where
  "process_nolib =
     \<lparr>fs = Map.empty, handles = [], pinned = (\<lambda>path. False), rt = runtime0, events = []\<rparr>"


section \<open>The loader of the specification\<close>

text \<open>
  The Dynamic Module Loader of section 4.1 of the specification is not in the repository. It is
  the facade over the platform's primitives that surfaces their failures as the typed errors of
  section 7.
\<close>

datatype error = LoadError | SymbolNotFoundError | SignatureMismatch | UnloadError

text \<open>
  Modelled from the spec: \<open>open\<close> is not in the repository. Section 4.1: it loads the module
  at the path and fails with \<open>LoadError\<close>.
\<close>

definition loader_open :: "string \<Rightarrow> mode \<Rightarrow> process \<Rightarrow> (error + LibraryHandle) \<times> process" where
  "loader_open path flag p =
     (case dlopen path flag p of
        (None, p1) \<Rightarrow> (Inl LoadError, p1)
      | (Some h, p1) \<Rightarrow> (Inr h, p1))"

text \<open>
  Modelled from the spec: \<open>resolve\<close> is not in the repository. Section 4.1: it looks up an
  exported entry point by its exact name and fails with \<open>SymbolNotFoundError\<close>.
\<close>

definition loader_resolve :: "LibraryHandle \<Rightarrow> string \<Rightarrow> process \<Rightarrow> (error + SymbolReference) \<times> process" where
  "loader_resolve h name p =
     (case dlsym (Some h) name p of
        (None, p1) \<Rightarrow> (Inl SymbolNotFoundError, p1)
      | (Some r, p1) \<Rightarrow> (Inr r, p1))"

text \<open>
  Modelled from the spec: \<open>invoke\<close> is not in the repository. Section 4.1: it calls the
  resolved entry point; the loader has no view of what the call does.
\<close>

definition loader_invoke :: "SymbolReference \<Rightarrow> process \<Rightarrow> (InvocationResult \<times> process) option" where
  "loader_invoke r p = call (Some r) p"

text \<open>
  Modelled from the spec: \<open>close\<close> is not in the repository. Section 4.1: it releases the
  module and fails with \<open>UnloadError\<close>.
\<close>

definition loader_close :: "LibraryHandle \<Rightarrow> process \<Rightarrow> (error + unit) \<times> process" where
  "loader_close h p =
     (case dlclose (Some h) p of
        (rc, p1) \<Rightarrow> (if rc = 0 then Inr () else Inl UnloadError, p1))"

text \<open>An execution of an arbitrary client of the loader: any sequence of the four operations.\<close>

datatype op =
    OpOpen string mode
  | OpResolve LibraryHandle string
  | OpInvoke SymbolReference
  | OpClose LibraryHandle

fun apply_op :: "op \<Rightarrow> process \<Rightarrow> process" where
  "apply_op (OpOpen path flag) p = snd (loader_open path flag p)"
| "apply_op (OpResolve h name) p = snd (loader_resolve h name p)"
| "apply_op (OpInvoke r) p = (case loader_invoke r p of None \<Rightarrow> p | Some (res, p1) \<Rightarrow> p1)"
| "apply_op (OpClose h) p = snd (loader_close h p)"

fun run :: "op list \<Rightarrow> process \<Rightarrow> process" where
  "run [] p = p"
| "run (x # xs) p = run xs (apply_op x p)"


section \<open>Predicates on executions\<close>

text \<open>An event that closes the handle \<open>h\<close>; an event that enters an entry point bound to \<open>h\<close>.\<close>

fun closes :: "LibraryHandle \<Rightarrow> event \<Rightarrow> bool" where
  "closes h (EvClose x) = (x = Some h)"
| "closes h e = False"

fun invokes :: "LibraryHandle \<Rightarrow> event \<Rightarrow> bool" where
  "invokes h (EvInvoke r) = (owner r = h)"
| "invokes h e = False"

text \<open>Some event that closes \<open>h\<close> is followed, later in the list, by an invocation bound to \<open>h\<close>.\<close>

fun invoked_after_close :: "LibraryHandle \<Rightarrow> event list \<Rightarrow> bool" where
  "invoked_after_close h [] = False"
| "invoked_after_close h (e # es) =
     ((closes h e \<and> list_ex (invokes h) es) \<or> invoked_after_close h es)"

text \<open>
  The moves of a handle in one step: it stays where it is, goes from unopened to open, or from
  open to closed.
\<close>

fun lifecycle_step :: "hstate \<Rightarrow> hstate \<Rightarrow> bool" where
  "lifecycle_step Unopened Unopened = True"
| "lifecycle_step Unopened Open = True"
| "lifecycle_step Open Open = True"
| "lifecycle_step Open Closed = True"
| "lifecycle_step Closed Closed = True"
| "lifecycle_step a b = False"

text \<open>The names in the export table of the module behind an open handle.\<close>

definition export_table :: "process \<Rightarrow> LibraryHandle \<Rightarrow> string list" where
  "export_table p h = (case image p h of None \<Rightarrow> [] | Some m \<Rightarrow> map fst (exports m))"

text \<open>In the list of steps, no \<open>b\<close> comes before the first \<open>a\<close>.\<close>

fun preceded_by :: "step \<Rightarrow> step \<Rightarrow> step list \<Rightarrow> bool" where
  "preceded_by a b [] = True"
| "preceded_by a b (x # xs) = (x = a \<or> (x \<noteq> b \<and> preceded_by a b xs))"

text \<open>The process right after the library has been opened: nothing has been invoked yet.\<close>

definition opened0 :: process where
  "opened0 = snd (dlopen ''../2-shared/libEmpty.dylib'' RTLD_NOW process0)"


section \<open>Properties of the foreign function and its client\<close>

lemma sint_succ:
  fixes n :: cint
  assumes "sint n < 2147483647"
  shows "sint (n + 1) = sint n + 1"
proof -
  have "- (2 ^ 31) \<le> sint n"
    using sint_range_size [of n] by (simp add: word_size)
  with assms have "signed_take_bit 31 (sint n + 1) = sint n + 1"
    by (intro signed_take_bit_int_eq_self) simp_all
  then show ?thesis
    by (simp add: sint_word_ariths)
qed

lemma fmt_d_2: "fmt_d 2 = ''2''"
  by (simp add: fmt_d_def dec_digits.simps digit_char_def)

lemma fmt_d_3: "fmt_d 3 = ''3''"
  by (simp add: fmt_d_def dec_digits.simps digit_char_def)

lemma Main_new_load_libforeign:
  "Main_new load_libforeign c =
     (Normal,
      c\<lparr>out := out c @
            [Trace ''Hello from Main, about to load libforeign library'',
             Printf (''CPP: intVal = 2'' @ [CHR 0x0A]),
             Trace ''Main called ForeignFunction(2), returned 3''],
        loads := loads c @ [(''libforeign'', ''CPP_ForeignFunction'', 1)],
        invocations := invocations c @ [[HxInt 2]]\<rparr>)"
  by (simp add: Main_new_def load_libforeign_def Foreign_cpp_prim_def DEFINE_PRIM_def
      loaded_prim_def CPP_ForeignFunction_def alloc_int_def trace_def fmt_d_2 fmt_d_3)

text \<open>
  C1. \<open>CPP_ForeignFunction\<close> called with 2 returns 3. For every input \<open>v\<close> it returns the
  input plus one, in the arithmetic of the 32-bit \<open>int\<close> that \<^verbatim>\<open>intVal++\<close> works in; below
  the largest \<open>int\<close> this is the integer successor. The result depends on the input only: it
  is the same whatever has been written to standard output before, and the same when the
  function is called again after its own call. \<open>Main.new\<close>, with the primitive loaded, traces
  that \<open>ForeignFunction(2)\<close> returned 3.
\<close>

theorem CPP_ForeignFunction_increments:
  "fst (CPP_ForeignFunction (alloc_int 2) out0) = alloc_int 3
   \<and> val_int (fst (CPP_ForeignFunction v out0)) = val_int v + 1
   \<and> fst (CPP_ForeignFunction v out1) = fst (CPP_ForeignFunction v out0)
   \<and> fst (CPP_ForeignFunction v (snd (CPP_ForeignFunction v out0))) = fst (CPP_ForeignFunction v out0)
   \<and> (sint (val_int v) < 2147483647 \<longrightarrow>
        sint (val_int (fst (CPP_ForeignFunction v out0))) = sint (val_int v) + 1)
   \<and> fst (Main_new load_libforeign c) = Normal
   \<and> out (snd (Main_new load_libforeign c)) =
       out c @
         [Trace ''Hello from Main, about to load libforeign library'',
          Printf (''CPP: intVal = 2'' @ [CHR 0x0A]),
          Trace ''Main called ForeignFunction(2), returned 3'']"
  by (simp add: CPP_ForeignFunction_def Let_def alloc_int_def sint_succ Main_new_load_libforeign)

theorem CPP_ForeignFunction_increments_witness:
  "sint (val_int (alloc_int 2)) < 2147483647
   \<and> sint (val_int (fst (CPP_ForeignFunction (alloc_int 2) []))) = 3
   \<and> out (snd (Main_new load_libforeign client0)) =
         [Trace ''Hello from Main, about to load libforeign library'',
          Printf (''CPP: intVal = 2'' @ [CHR 0x0A]),
          Trace ''Main called ForeignFunction(2), returned 3'']"
  using CPP_ForeignFunction_increments [of "[]" "alloc_int 2" "[]" client0]
  by (simp add: alloc_int_def client0_def)

text \<open>
  C9. If \<open>cpp.Lib.load\<close> throws, \<open>Main.new\<close> traces the failure and returns normally without
  a call through \<open>ForeignFunction\<close>; if the load succeeds there is exactly one call, with the
  argument 2. So a call is made only if the load succeeded.
\<close>

theorem Main_new_invokes_only_if_loaded:
  "(load ''libforeign'' ''CPP_ForeignFunction'' 1 = None \<longrightarrow>
      fst (Main_new load c) = Normal
      \<and> out (snd (Main_new load c)) =
          out c @ [Trace ''Hello from Main, about to load libforeign library'',
                   Trace ''Failed to load libforeign.ndll!'']
      \<and> invocations (snd (Main_new load c)) = invocations c)
   \<and> (load ''libforeign'' ''CPP_ForeignFunction'' 1 \<noteq> None \<longrightarrow>
      invocations (snd (Main_new load c)) = invocations c @ [[HxInt 2]])
   \<and> (invocations (snd (Main_new load c)) \<noteq> invocations c \<longrightarrow>
      load ''libforeign'' ''CPP_ForeignFunction'' 1 \<noteq> None)"
  by (auto simp add: Main_new_def trace_def Let_def split: option.split prod.split)

theorem Main_new_invokes_only_if_loaded_witness:
  "load_nothing ''libforeign'' ''CPP_ForeignFunction'' 1 = None
   \<and> out (snd (Main_new load_nothing client0)) =
        [Trace ''Hello from Main, about to load libforeign library'',
         Trace ''Failed to load libforeign.ndll!'']
   \<and> invocations (snd (Main_new load_nothing client0)) = []
   \<and> load_libforeign ''libforeign'' ''CPP_ForeignFunction'' 1 \<noteq> None
   \<and> invocations (snd (Main_new load_libforeign client0)) = [[HxInt 2]]"
  using Main_new_invokes_only_if_loaded [of load_nothing client0]
    Main_new_invokes_only_if_loaded [of load_libforeign client0]
  by (simp add: load_nothing_def load_libforeign_def client0_def Foreign_cpp_prim_def
      DEFINE_PRIM_def)

lemma Main_new_depends_on_request:
  "load ''libforeign'' ''CPP_ForeignFunction'' 1 = load' ''libforeign'' ''CPP_ForeignFunction'' 1
   \<Longrightarrow> Main_new load c = Main_new load' c"
  by (simp add: Main_new_def)

lemma Main_new_depends_on_unary_call:
  "(\<forall>v o1. F [v] o1 = G [v] o1) \<Longrightarrow>
   Main_new (\<lambda>lib name nargs. Some F) c = Main_new (\<lambda>lib name nargs. Some G) c"
  by (simp add: Main_new_def)

lemma Main_new_load_registered:
  "Main_new (load_registered (DEFINE_PRIM ''CPP_ForeignFunction'' k)) c =
     (Normal,
      c\<lparr>out := out c @
            (if k = 1
             then [Trace ''Hello from Main, about to load libforeign library'',
                   Printf (''CPP: intVal = 2'' @ [CHR 0x0A]),
                   Trace ''Main called ForeignFunction(2), returned 3'']
             else [Trace ''Hello from Main, about to load libforeign library'',
                   Trace ''Failed to load libforeign.ndll!'']),
        loads := loads c @ [(''libforeign'', ''CPP_ForeignFunction'', 1)],
        invocations := invocations c @ (if k = 1 then [[HxInt 2]] else [])\<rparr>)"
proof (cases "k = 1")
  case True
  have "load_registered (DEFINE_PRIM ''CPP_ForeignFunction'' 1) = load_libforeign"
    by (intro ext) (simp add: load_registered_def load_libforeign_def Foreign_cpp_prim_def)
  with True show ?thesis
    by (simp add: Main_new_load_libforeign)
next
  case False
  then have "load_registered (DEFINE_PRIM ''CPP_ForeignFunction'' k)
      ''libforeign'' ''CPP_ForeignFunction'' 1 = None"
    by (simp add: load_registered_def DEFINE_PRIM_def)
  with False show ?thesis
    by (simp add: Main_new_def trace_def)
qed

text \<open>
  C10. The number of arguments agrees across the boundary. \<open>DEFINE_PRIM\<close> registers
  \<open>CPP_ForeignFunction\<close> with 1. \<open>Main.new\<close> asks \<open>cpp.Lib.load\<close> for that name with that
  number: its run is the same under two loaders that answer that one request alike, whatever
  they answer to others, and over a library that registered the name with \<open>k\<close> arguments
  the load succeeds and the call returns 3 exactly for \<open>k = 1\<close>. Every call that
  \<open>Main.new\<close> makes through \<open>ForeignFunction\<close> passes one argument: its run is the same for
  two function values that agree on every call with one argument, and the primitive, which
  throws on any other number of arguments, returns.
\<close>

theorem foreign_arity_consistent:
  "prim_name Foreign_cpp_prim = ''CPP_ForeignFunction''
   \<and> prim_nargs Foreign_cpp_prim = 1
   \<and> loads (snd (Main_new load c)) =
       loads c @ [(''libforeign'', prim_name Foreign_cpp_prim, prim_nargs Foreign_cpp_prim)]
   \<and> (\<forall>args \<in> set (drop (length (invocations c)) (invocations (snd (Main_new load c)))).
         length args = prim_nargs Foreign_cpp_prim)
   \<and> (load ''libforeign'' (prim_name Foreign_cpp_prim) (prim_nargs Foreign_cpp_prim)
        = load' ''libforeign'' (prim_name Foreign_cpp_prim) (prim_nargs Foreign_cpp_prim)
       \<longrightarrow> Main_new load c = Main_new load' c)
   \<and> ((\<forall>v o1. F [v] o1 = G [v] o1) \<longrightarrow>
        Main_new (\<lambda>lib name nargs. Some F) c = Main_new (\<lambda>lib name nargs. Some G) c)
   \<and> fst (Main_new (load_registered (DEFINE_PRIM ''CPP_ForeignFunction'' k)) c) = Normal
   \<and> out (snd (Main_new (load_registered (DEFINE_PRIM ''CPP_ForeignFunction'' k)) c)) =
       out c @
         (if k = prim_nargs Foreign_cpp_prim
          then [Trace ''Hello from Main, about to load libforeign library'',
                Printf (''CPP: intVal = 2'' @ [CHR 0x0A]),
                Trace ''Main called ForeignFunction(2), returned 3'']
          else [Trace ''Hello from Main, about to load libforeign library'',
                Trace ''Failed to load libforeign.ndll!''])"
proof -
  have names: "prim_name Foreign_cpp_prim = ''CPP_ForeignFunction''"
    "prim_nargs Foreign_cpp_prim = 1"
    by (simp_all add: Foreign_cpp_prim_def DEFINE_PRIM_def)
  have logs: "loads (snd (Main_new load c)) =
       loads c @ [(''libforeign'', ''CPP_ForeignFunction'', 1)]
     \<and> (\<forall>args \<in> set (drop (length (invocations c)) (invocations (snd (Main_new load c)))).
         length args = 1)"
    by (auto simp add: Main_new_def trace_def Let_def split: option.split prod.split)
  show ?thesis
    using logs Main_new_depends_on_request [of load load' c]
      Main_new_depends_on_unary_call [of F G c]
    by (simp add: names Main_new_load_registered)
qed

theorem foreign_arity_consistent_witness:
  "load_libforeign ''libforeign'' (prim_name Foreign_cpp_prim) (prim_nargs Foreign_cpp_prim)
     = load_any ''libforeign'' (prim_name Foreign_cpp_prim) (prim_nargs Foreign_cpp_prim)
   \<and> load_libforeign ''libforeign'' ''CPP_ForeignFunction'' 7
       \<noteq> load_any ''libforeign'' ''CPP_ForeignFunction'' 7
   \<and> Main_new load_libforeign client0 = Main_new load_any client0
   \<and> loaded_prim [HxInt 5] [] = lenient_prim [HxInt 5] []
   \<and> loaded_prim [HxInt 5, HxInt 6] [] \<noteq> lenient_prim [HxInt 5, HxInt 6] []
   \<and> Main_new (\<lambda>lib name nargs. Some loaded_prim) client0
       = Main_new (\<lambda>lib name nargs. Some lenient_prim) client0
   \<and> [HxInt 2] \<in> set (drop (length (invocations client0))
                      (invocations (snd (Main_new load_libforeign client0))))
   \<and> length [HxInt 2] = prim_nargs Foreign_cpp_prim
   \<and> out (snd (Main_new (load_registered (DEFINE_PRIM ''CPP_ForeignFunction'' 1)) client0)) =
       [Trace ''Hello from Main, about to load libforeign library'',
        Printf (''CPP: intVal = 2'' @ [CHR 0x0A]),
        Trace ''Main called ForeignFunction(2), returned 3'']
   \<and> out (snd (Main_new (load_registered (DEFINE_PRIM ''CPP_ForeignFunction'' 2)) client0)) =
       [Trace ''Hello from Main, about to load libforeign library'',
        Trace ''Failed to load libforeign.ndll!'']"
proof -
  have req: "load_libforeign ''libforeign'' (prim_name Foreign_cpp_prim) (prim_nargs Foreign_cpp_prim)
     = load_any ''libforeign'' (prim_name Foreign_cpp_prim) (prim_nargs Foreign_cpp_prim)"
    by (simp add: load_libforeign_def load_any_def)
  have other: "load_libforeign ''libforeign'' ''CPP_ForeignFunction'' 7
       \<noteq> load_any ''libforeign'' ''CPP_ForeignFunction'' 7"
    by (simp add: load_libforeign_def load_any_def Foreign_cpp_prim_def DEFINE_PRIM_def)
  have unary: "\<forall>v o1. loaded_prim [v] o1 = lenient_prim [v] o1"
    by (simp add: lenient_prim_def)
  have binary: "loaded_prim [HxInt 5, HxInt 6] [] \<noteq> lenient_prim [HxInt 5, HxInt 6] []"
    by (simp add: lenient_prim_def loaded_prim_def)
  have inv: "invocations (snd (Main_new load_libforeign client0)) = [[HxInt 2]]"
    by (simp add: Main_new_load_libforeign client0_def)
  have nargs: "prim_nargs Foreign_cpp_prim = 1"
    by (simp add: Foreign_cpp_prim_def DEFINE_PRIM_def)
  have out0: "out client0 = []" "invocations client0 = []"
    by (simp_all add: client0_def)
  show ?thesis
    using foreign_arity_consistent [where load = load_libforeign and load' = load_any
        and c = client0 and F = loaded_prim and G = lenient_prim and k = 1]
      foreign_arity_consistent [where load = load_libforeign and load' = load_any
        and c = client0 and F = loaded_prim and G = lenient_prim and k = 2]
      req other unary binary inv
    by (simp add: nargs out0)
qed


section \<open>Properties of the library wrapper\<close>

text \<open>
  C3. \<open>run_haxe\<close> returns 0 exactly when \<open>hxRunLibrary\<close> returns the null pointer. When
  \<open>hxRunLibrary\<close> returns an error message, \<open>run_haxe\<close> returns -1, which is not the success
  status, and has written the line \<open>Error\<close> with the message to standard output.
\<close>

theorem run_haxe_status:
  "(fst (run_haxe hxRunLibrary s) = 0 \<longleftrightarrow> fst (hxRunLibrary (hxcpp_set_top_of_stack s)) = None)
   \<and> (\<forall>e. fst (hxRunLibrary (hxcpp_set_top_of_stack s)) = Some e \<longrightarrow>
          fst (run_haxe hxRunLibrary s) = - 1
          \<and> fst (run_haxe hxRunLibrary s) \<noteq> 0
          \<and> stdout (snd (run_haxe hxRunLibrary s)) =
              stdout (snd (hxRunLibrary (hxcpp_set_top_of_stack s)))
                @ [Printf (''Error '' @ e @ [CHR 0x0A])])"
  by (simp add: run_haxe_def Let_def split: prod.split option.split)

theorem run_haxe_status_witness:
  "fst (hxRunLibrary_throwing (hxcpp_set_top_of_stack runtime0)) = Some ''boom''
   \<and> fst (run_haxe hxRunLibrary_throwing runtime0) = - 1
   \<and> stdout (snd (run_haxe hxRunLibrary_throwing runtime0)) = [Printf (''Error boom'' @ [CHR 0x0A])]
   \<and> fst (hxRunLibrary_Empty (hxcpp_set_top_of_stack runtime0)) = None
   \<and> fst (run_haxe hxRunLibrary_Empty runtime0) = 0"
  using run_haxe_status [of hxRunLibrary_throwing runtime0]
    run_haxe_status [of hxRunLibrary_Empty runtime0]
  by (simp add: hxRunLibrary_throwing_def hxRunLibrary_Empty_def runtime0_def
      hxcpp_set_top_of_stack_def)


section \<open>Properties of the client and of the loader\<close>

lemma main_run:
  "main p =
     (case loadable p ''../2-shared/libEmpty.dylib'' of
        None \<Rightarrow>
          (Crash, p\<lparr>events := events p @
             [EvOpen ''../2-shared/libEmpty.dylib'' RTLD_NOW None, EvResolve None ''run_haxe'']\<rparr>)
      | Some m \<Rightarrow>
          (let h = length (handles p);
               hs = handles p @ [(Open, ''../2-shared/libEmpty.dylib'', m)];
               e2 = [EvOpen ''../2-shared/libEmpty.dylib'' RTLD_NOW (Some h),
                     EvResolve (Some h) ''run_haxe'']
           in case map_of (exports m) ''run_haxe'' of
                None \<Rightarrow> (Crash, p\<lparr>handles := hs, events := events p @ e2\<rparr>)
              | Some f \<Rightarrow>
                  (let e4 = e2 @ [EvInvoke \<lparr>owner = h, target = ''run_haxe''\<rparr>,
                                  EvResolve (Some h) ''empty_test'']
                   in case map_of (exports m) ''empty_test'' of
                        None \<Rightarrow>
                          (Crash, p\<lparr>handles := hs, rt := snd (f (rt p)), events := events p @ e4\<rparr>)
                      | Some g \<Rightarrow>
                          (Exit 0,
                           p\<lparr>handles :=
                                (if pinned p ''../2-shared/libEmpty.dylib'' then hs
                                 else hs[h := (Closed, ''../2-shared/libEmpty.dylib'', m)]),
                             rt := snd (g (snd (f (rt p)))),
                             events := events p @ e4 @
                               [EvInvoke \<lparr>owner = h, target = ''empty_test''\<rparr>,
                                EvClose (Some h)]\<rparr>))))"
proof (cases "loadable p ''../2-shared/libEmpty.dylib''")
  case None
  then show ?thesis
    by (simp add: main_def dlopen_def dlsym_def call_def)
next
  case (Some m)
  note m = this
  show ?thesis
  proof (cases "map_of (exports m) ''run_haxe''")
    case None
    with m show ?thesis
      by (simp add: main_def dlopen_def dlsym_def call_def image_def Let_def)
  next
    case (Some f)
    note f = this
    show ?thesis
    proof (cases "map_of (exports m) ''empty_test''")
      case None
      with m f show ?thesis
        by (simp add: main_def dlopen_def dlsym_def call_def image_def Let_def
            split: prod.split)
    next
      case (Some g)
      with m f show ?thesis
        by (simp add: main_def dlopen_def dlsym_def call_def dlclose_def image_def
            handle_state_def Let_def split: prod.split)
    qed
  qed
qed

lemma main_trace_cases:
  "main_trace p \<in>
     {[EvOpen ''../2-shared/libEmpty.dylib'' RTLD_NOW None, EvResolve None ''run_haxe''],
      [EvOpen ''../2-shared/libEmpty.dylib'' RTLD_NOW (Some (length (handles p))),
       EvResolve (Some (length (handles p))) ''run_haxe''],
      [EvOpen ''../2-shared/libEmpty.dylib'' RTLD_NOW (Some (length (handles p))),
       EvResolve (Some (length (handles p))) ''run_haxe'',
       EvInvoke \<lparr>owner = length (handles p), target = ''run_haxe''\<rparr>,
       EvResolve (Some (length (handles p))) ''empty_test''],
      [EvOpen ''../2-shared/libEmpty.dylib'' RTLD_NOW (Some (length (handles p))),
       EvResolve (Some (length (handles p))) ''run_haxe'',
       EvInvoke \<lparr>owner = length (handles p), target = ''run_haxe''\<rparr>,
       EvResolve (Some (length (handles p))) ''empty_test'',
       EvInvoke \<lparr>owner = length (handles p), target = ''empty_test''\<rparr>,
       EvClose (Some (length (handles p)))]}"
  by (simp add: main_trace_def main_run Let_def split: option.split)

lemma main_exit_iff:
  "fst (main p) = Exit 0 \<longleftrightarrow>
     (\<exists>m. loadable p ''../2-shared/libEmpty.dylib'' = Some m
          \<and> map_of (exports m) ''run_haxe'' \<noteq> None
          \<and> map_of (exports m) ''empty_test'' \<noteq> None)"
  by (auto simp add: main_run Let_def split: option.split)

lemma main_trace_exit:
  "fst (main p) = Exit 0 \<Longrightarrow>
   main_trace p =
      [EvOpen ''../2-shared/libEmpty.dylib'' RTLD_NOW (Some (length (handles p))),
       EvResolve (Some (length (handles p))) ''run_haxe'',
       EvInvoke \<lparr>owner = length (handles p), target = ''run_haxe''\<rparr>,
       EvResolve (Some (length (handles p))) ''empty_test'',
       EvInvoke \<lparr>owner = length (handles p), target = ''empty_test''\<rparr>,
       EvClose (Some (length (handles p)))]"
  by (auto simp add: main_trace_def main_run Let_def split: option.splits)

lemma main_process0: "fst (main process0) = Exit 0"
  by (simp add: main_exit_iff process0_def loadable_def libEmpty_def)

lemma main_process0_stdout:
  "stdout (rt (snd (main process0))) = [Trace ''hello empty library'', Trace ''hello test function'']"
  by (simp add: main_run loadable_def process0_def libEmpty_def Let_def run_haxe_def
      hxRunLibrary_Empty_def hxcpp_set_top_of_stack_def empty_test_def Empty_obj_test_def
      runtime0_def)

lemma main_trace_prefix: "prefix (map step_of (main_trace p)) scenario"
  using main_trace_cases [of p] by (auto simp add: scenario_def)

lemma main_trace_starts:
  "take 2 (map step_of (main_trace p)) = [StepOpen, StepResolve ''run_haxe'']"
  using main_trace_cases [of p] by auto

lemma main_trace_crash:
  "fst (main p) \<noteq> Exit 0 \<Longrightarrow>
   fst (main p) = Crash
   \<and> (map step_of (main_trace p) = [StepOpen, StepResolve ''run_haxe'']
      \<or> map step_of (main_trace p) =
          [StepOpen, StepResolve ''run_haxe'', StepInvoke ''run_haxe'',
           StepResolve ''empty_test''])"
  by (auto simp add: main_trace_def main_run Let_def split: option.splits)

text \<open>
  C2, as stated, fails: where the library file is missing, \<open>main\<close> opens, resolves
  \<open>run_haxe\<close> on the null pointer and stops at the call of the null pointer. It has invoked
  nothing and closed nothing, so it has not performed the sequence.
\<close>

theorem main_without_library_counterexample:
  "fst (main process_nolib) = Crash
   \<and> map step_of (main_trace process_nolib) = [StepOpen, StepResolve ''run_haxe'']
   \<and> map step_of (main_trace process_nolib) \<noteq> scenario"
proof -
  have l: "loadable process_nolib ''../2-shared/libEmpty.dylib'' = None"
    by (simp add: loadable_def process_nolib_def)
  have m: "main process_nolib =
      (Crash, process_nolib\<lparr>events := events process_nolib @
         [EvOpen ''../2-shared/libEmpty.dylib'' RTLD_NOW None, EvResolve None ''run_haxe'']\<rparr>)"
    by (simp add: main_run l)
  have t: "main_trace process_nolib =
      [EvOpen ''../2-shared/libEmpty.dylib'' RTLD_NOW None, EvResolve None ''run_haxe'']"
    by (simp add: main_trace_def m)
  show ?thesis
    by (simp add: m t scenario_def)
qed

text \<open>
  C2, amended. If the library at the path loads and exports \<open>run_haxe\<close> and \<open>empty_test\<close>,
  \<open>main\<close> returns 0 and has performed exactly the sequence open, resolve \<open>run_haxe\<close>, invoke
  it, resolve \<open>empty_test\<close>, invoke it, close, in this order and all on the handle that the
  open returned. Otherwise \<open>main\<close>, which checks no result, stops at the call of a null
  pointer, after the open and the resolve of \<open>run_haxe\<close>, or after the invocation of
  \<open>run_haxe\<close> and the resolve of \<open>empty_test\<close>. In every execution the steps performed begin
  with the open and the resolve of \<open>run_haxe\<close> and are an initial segment of the sequence:
  \<open>run_haxe\<close> is the first symbol resolved and the first invoked, and no resolve or invoke
  comes before the open or after the close.
\<close>

theorem main_scenario_if_library_loads:
  "((\<exists>m. loadable p ''../2-shared/libEmpty.dylib'' = Some m
         \<and> map_of (exports m) ''run_haxe'' \<noteq> None
         \<and> map_of (exports m) ''empty_test'' \<noteq> None) \<longrightarrow>
      fst (main p) = Exit 0
      \<and> map step_of (main_trace p) = scenario
      \<and> main_trace p =
          [EvOpen ''../2-shared/libEmpty.dylib'' RTLD_NOW (Some (length (handles p))),
           EvResolve (Some (length (handles p))) ''run_haxe'',
           EvInvoke \<lparr>owner = length (handles p), target = ''run_haxe''\<rparr>,
           EvResolve (Some (length (handles p))) ''empty_test'',
           EvInvoke \<lparr>owner = length (handles p), target = ''empty_test''\<rparr>,
           EvClose (Some (length (handles p)))])
   \<and> (\<not> (\<exists>m. loadable p ''../2-shared/libEmpty.dylib'' = Some m
         \<and> map_of (exports m) ''run_haxe'' \<noteq> None
         \<and> map_of (exports m) ''empty_test'' \<noteq> None) \<longrightarrow>
      fst (main p) = Crash
      \<and> (map step_of (main_trace p) = [StepOpen, StepResolve ''run_haxe'']
         \<or> map step_of (main_trace p) =
             [StepOpen, StepResolve ''run_haxe'', StepInvoke ''run_haxe'',
              StepResolve ''empty_test'']))
   \<and> prefix (map step_of (main_trace p)) scenario
   \<and> take 2 (map step_of (main_trace p)) = [StepOpen, StepResolve ''run_haxe'']"
proof (cases "fst (main p) = Exit 0")
  case True
  then have ex: "\<exists>m. loadable p ''../2-shared/libEmpty.dylib'' = Some m
         \<and> map_of (exports m) ''run_haxe'' \<noteq> None
         \<and> map_of (exports m) ''empty_test'' \<noteq> None"
    using main_exit_iff [of p] by simp
  have t: "main_trace p =
          [EvOpen ''../2-shared/libEmpty.dylib'' RTLD_NOW (Some (length (handles p))),
           EvResolve (Some (length (handles p))) ''run_haxe'',
           EvInvoke \<lparr>owner = length (handles p), target = ''run_haxe''\<rparr>,
           EvResolve (Some (length (handles p))) ''empty_test'',
           EvInvoke \<lparr>owner = length (handles p), target = ''empty_test''\<rparr>,
           EvClose (Some (length (handles p)))]"
    using True by (rule main_trace_exit)
  have s: "map step_of (main_trace p) = scenario"
    by (simp add: t scenario_def)
  show ?thesis
    using True ex t s main_trace_prefix [of p] main_trace_starts [of p] by blast
next
  case False
  then have nex: "\<not> (\<exists>m. loadable p ''../2-shared/libEmpty.dylib'' = Some m
         \<and> map_of (exports m) ''run_haxe'' \<noteq> None
         \<and> map_of (exports m) ''empty_test'' \<noteq> None)"
    using main_exit_iff [of p] by simp
  show ?thesis
    using nex main_trace_crash [OF False] main_trace_prefix [of p] main_trace_starts [of p]
    by blast
qed

theorem main_scenario_if_library_loads_witness:
  "loadable process0 ''../2-shared/libEmpty.dylib'' = Some libEmpty
   \<and> map_of (exports libEmpty) ''run_haxe'' \<noteq> None
   \<and> map_of (exports libEmpty) ''empty_test'' \<noteq> None
   \<and> fst (main process0) = Exit 0
   \<and> map step_of (main_trace process0) = scenario
   \<and> main_trace process0 =
       [EvOpen ''../2-shared/libEmpty.dylib'' RTLD_NOW (Some 0),
        EvResolve (Some 0) ''run_haxe'',
        EvInvoke \<lparr>owner = 0, target = ''run_haxe''\<rparr>,
        EvResolve (Some 0) ''empty_test'',
        EvInvoke \<lparr>owner = 0, target = ''empty_test''\<rparr>,
        EvClose (Some 0)]
   \<and> stdout (rt (snd (main process0))) =
       [Trace ''hello empty library'', Trace ''hello test function'']
   \<and> loadable process_nolib ''../2-shared/libEmpty.dylib'' = None
   \<and> fst (main process_nolib) = Crash"
proof -
  have l: "loadable process0 ''../2-shared/libEmpty.dylib'' = Some libEmpty"
    by (simp add: loadable_def process0_def libEmpty_def)
  have r: "map_of (exports libEmpty) ''run_haxe'' \<noteq> None"
    "map_of (exports libEmpty) ''empty_test'' \<noteq> None"
    by (simp_all add: libEmpty_def)
  have ex: "\<exists>m. loadable process0 ''../2-shared/libEmpty.dylib'' = Some m
         \<and> map_of (exports m) ''run_haxe'' \<noteq> None
         \<and> map_of (exports m) ''empty_test'' \<noteq> None"
    using l r by blast
  have h0: "length (handles process0) = 0"
    by (simp add: process0_def)
  have n: "loadable process_nolib ''../2-shared/libEmpty.dylib'' = None"
    by (simp add: loadable_def process_nolib_def)
  then have nex: "\<not> (\<exists>m. loadable process_nolib ''../2-shared/libEmpty.dylib'' = Some m
         \<and> map_of (exports m) ''run_haxe'' \<noteq> None
         \<and> map_of (exports m) ''empty_test'' \<noteq> None)"
    by simp
  from main_scenario_if_library_loads [of process0] ex
  have good: "fst (main process0) = Exit 0
      \<and> map step_of (main_trace process0) = scenario
      \<and> main_trace process0 =
          [EvOpen ''../2-shared/libEmpty.dylib'' RTLD_NOW (Some (length (handles process0))),
           EvResolve (Some (length (handles process0))) ''run_haxe'',
           EvInvoke \<lparr>owner = length (handles process0), target = ''run_haxe''\<rparr>,
           EvResolve (Some (length (handles process0))) ''empty_test'',
           EvInvoke \<lparr>owner = length (handles process0), target = ''empty_test''\<rparr>,
           EvClose (Some (length (handles process0)))]"
    by blast
  from main_scenario_if_library_loads [of process_nolib] nex
  have bad: "fst (main process_nolib) = Crash"
    by blast
  show ?thesis
    using good bad l r n h0 main_process0_stdout by (simp add: scenario_def)
qed

lemma handle_state_dlopen:
  "handle_state (snd (dlopen path flag p)) h =
     (if loadable p path \<noteq> None \<and> h = length (handles p) then Open else handle_state p h)"
  by (auto simp add: dlopen_def handle_state_def Let_def nth_append split: option.split)

lemma handle_state_dlsym: "handle_state (snd (dlsym x name p)) h = handle_state p h"
  by (simp add: dlsym_def handle_state_def Let_def split: option.split)

lemma handle_state_call:
  "call fn p = Some (res, p1) \<Longrightarrow> handle_state p1 h = handle_state p h"
  by (auto simp add: call_def handle_state_def split: option.splits prod.splits)

lemma handle_state_dlclose:
  "handle_state (snd (dlclose (Some k) p)) h =
     (if h = k \<and> handle_state p k = Open \<and> \<not> pinned p (fst (snd (handles p ! k)))
      then Closed else handle_state p h)"
  by (auto simp add: dlclose_def handle_state_def Let_def nth_list_update split: if_splits)

lemma snd_loader_open: "snd (loader_open path flag p) = snd (dlopen path flag p)"
  by (simp add: loader_open_def split: prod.split option.split)

lemma snd_loader_resolve: "snd (loader_resolve h name p) = snd (dlsym (Some h) name p)"
  by (simp add: loader_resolve_def split: prod.split option.split)

lemma snd_loader_close: "snd (loader_close h p) = snd (dlclose (Some h) p)"
  by (simp add: loader_close_def split: prod.split)

lemma lifecycle_step_refl: "lifecycle_step a a"
  by (cases a) simp_all

lemma lifecycle_step_apply_op:
  "lifecycle_step (handle_state p h) (handle_state (apply_op x p) h)"
proof (cases x)
  case (OpOpen path flag)
  have "h = length (handles p) \<Longrightarrow> handle_state p h = Unopened"
    by (simp add: handle_state_def)
  with OpOpen show ?thesis
    by (simp add: snd_loader_open handle_state_dlopen lifecycle_step_refl)
next
  case (OpResolve k name)
  then show ?thesis
    by (simp add: snd_loader_resolve handle_state_dlsym lifecycle_step_refl)
next
  case (OpInvoke r)
  then show ?thesis
    by (auto simp add: loader_invoke_def handle_state_call lifecycle_step_refl
        split: option.split)
next
  case (OpClose k)
  then show ?thesis
    by (simp add: snd_loader_close handle_state_dlclose lifecycle_step_refl)
qed

lemma closed_apply_op:
  "handle_state p h = Closed \<Longrightarrow> handle_state (apply_op x p) h = Closed"
  using lifecycle_step_apply_op [of p h x]
  by (cases "handle_state (apply_op x p) h") simp_all

lemma closed_run: "handle_state p h = Closed \<Longrightarrow> handle_state (run xs p) h = Closed"
  by (induction xs arbitrary: p) (simp_all add: closed_apply_op)

lemma image_None_if_not_Open: "handle_state p h \<noteq> Open \<Longrightarrow> image p h = None"
  by (auto simp add: image_def handle_state_def)

lemma image_Some_iff_Open: "image p h \<noteq> None \<longleftrightarrow> handle_state p h = Open"
  by (auto simp add: image_def handle_state_def)

lemma closed_close_fails:
  "handle_state p h \<noteq> Open \<Longrightarrow> fst (loader_close h p) = Inl UnloadError"
  by (simp add: loader_close_def dlclose_def Let_def)

lemma closed_invoke_fails:
  "handle_state p h \<noteq> Open \<Longrightarrow> loader_invoke \<lparr>owner = h, target = name\<rparr> p = None"
  by (simp add: loader_invoke_def call_def image_None_if_not_Open)

lemma closed_resolve_fails:
  "handle_state p h \<noteq> Open \<Longrightarrow> fst (loader_resolve h name p) = Inl SymbolNotFoundError"
  by (simp add: loader_resolve_def dlsym_def Let_def image_None_if_not_Open)

lemma closed_not_reopened:
  "handle_state p h = Closed \<Longrightarrow> fst (loader_open path flag p) \<noteq> Inr h"
  by (auto simp add: loader_open_def dlopen_def handle_state_def Let_def
      split: option.splits if_splits)

lemma close_success:
  "fst (loader_close h p) = Inr () \<Longrightarrow>
   handle_state p h = Open \<and> handle_state (snd (loader_close h p)) h = Closed"
  by (auto simp add: loader_close_def dlclose_def handle_state_def Let_def
      split: if_splits)

lemma main_closes_once: "length (filter (closes h) (main_trace p)) \<le> 1"
  using main_trace_cases [of p] by auto

lemma main_no_invoke_after_close: "\<not> invoked_after_close h (main_trace p)"
  using main_trace_cases [of p] by auto

text \<open>
  C4. In every execution of \<open>main\<close> each handle is closed at most once and no entry point
  bound to a handle is invoked after the handle was closed. In every execution of any client of
  the loader, one operation moves a handle only along unopened, open, closed; once a close of
  \<open>h\<close> has succeeded, whatever operations follow, \<open>h\<close> stays closed: a second close fails,
  no open returns \<open>h\<close> again, and every reference bound to \<open>h\<close> is invalid (invoking it
  fails, and nothing can be resolved from \<open>h\<close>).
\<close>

theorem handle_lifecycle:
  "length (filter (closes h) (main_trace p)) \<le> 1
   \<and> \<not> invoked_after_close h (main_trace p)
   \<and> lifecycle_step (handle_state q h) (handle_state (apply_op x q) h)
   \<and> (fst (loader_close h q) = Inr () \<longrightarrow>
        handle_state q h = Open
        \<and> handle_state (run xs (snd (loader_close h q))) h = Closed
        \<and> fst (loader_close h (run xs (snd (loader_close h q)))) = Inl UnloadError
        \<and> fst (loader_open path flag (run xs (snd (loader_close h q)))) \<noteq> Inr h
        \<and> loader_invoke \<lparr>owner = h, target = name\<rparr> (run xs (snd (loader_close h q))) = None
        \<and> fst (loader_resolve h name (run xs (snd (loader_close h q))))
            = Inl SymbolNotFoundError)"
proof -
  have "fst (loader_close h q) = Inr () \<Longrightarrow>
        handle_state (run xs (snd (loader_close h q))) h = Closed"
    by (simp add: close_success closed_run)
  then show ?thesis
    using main_closes_once [of h p] main_no_invoke_after_close [of h p]
      lifecycle_step_apply_op [of q h x] close_success [of h q]
      closed_close_fails [of "run xs (snd (loader_close h q))" h]
      closed_not_reopened [of "run xs (snd (loader_close h q))" h path flag]
      closed_invoke_fails [of "run xs (snd (loader_close h q))" h name]
      closed_resolve_fails [of "run xs (snd (loader_close h q))" h name]
    by simp
qed

lemma opened0_eq:
  "opened0 =
     process0\<lparr>handles := [(Open, ''../2-shared/libEmpty.dylib'', libEmpty)],
              events := [EvOpen ''../2-shared/libEmpty.dylib'' RTLD_NOW (Some 0)]\<rparr>"
  by (simp add: opened0_def dlopen_def loadable_def process0_def libEmpty_def)

lemma handle_state_opened0: "handle_state opened0 0 = Open"
  by (simp add: opened0_eq handle_state_def)

lemma image_opened0: "image opened0 0 = Some libEmpty"
  by (simp add: opened0_eq image_def)

lemma close_opened0: "fst (loader_close 0 opened0) = Inr ()"
  by (simp add: loader_close_def dlclose_def handle_state_opened0 Let_def)
    (simp add: opened0_eq process0_def)

lemma main_trace_process0:
  "main_trace process0 =
     [EvOpen ''../2-shared/libEmpty.dylib'' RTLD_NOW (Some 0),
      EvResolve (Some 0) ''run_haxe'',
      EvInvoke \<lparr>owner = 0, target = ''run_haxe''\<rparr>,
      EvResolve (Some 0) ''empty_test'',
      EvInvoke \<lparr>owner = 0, target = ''empty_test''\<rparr>,
      EvClose (Some 0)]"
  using main_trace_exit [OF main_process0] by (simp add: process0_def)

theorem handle_lifecycle_witness:
  "fst (loader_close 0 opened0) = Inr ()
   \<and> handle_state opened0 0 = Open
   \<and> handle_state
        (run [OpOpen ''../2-shared/libEmpty.dylib'' RTLD_NOW,
              OpInvoke \<lparr>owner = 0, target = ''run_haxe''\<rparr>]
           (snd (loader_close 0 opened0))) 0 = Closed
   \<and> loader_invoke \<lparr>owner = 0, target = ''empty_test''\<rparr>
        (run [OpOpen ''../2-shared/libEmpty.dylib'' RTLD_NOW,
              OpInvoke \<lparr>owner = 0, target = ''run_haxe''\<rparr>]
           (snd (loader_close 0 opened0))) = None
   \<and> length (filter (closes 0) (main_trace process0)) = 1
   \<and> \<not> invoked_after_close 0 (main_trace process0)"
  using handle_lifecycle [of 0 process0 opened0 "OpClose 0"
      "[OpOpen ''../2-shared/libEmpty.dylib'' RTLD_NOW,
        OpInvoke \<lparr>owner = 0, target = ''run_haxe''\<rparr>]"
      "''../2-shared/libEmpty.dylib''" RTLD_NOW "''empty_test''"]
    close_opened0
  by (simp add: main_trace_process0)

lemma image_events: "image (p\<lparr>events := es\<rparr>) h = image p h"
  by (simp add: image_def)

lemma fst_loader_resolve:
  "fst (loader_resolve h name p) =
     (case fst (dlsym (Some h) name p) of None \<Rightarrow> Inl SymbolNotFoundError | Some r \<Rightarrow> Inr r)"
  by (cases "dlsym (Some h) name p") (simp add: loader_resolve_def split: option.split)

lemma map_of_missing: "name \<notin> set (export_table p h) \<Longrightarrow> image p h = Some m \<Longrightarrow>
    map_of (exports m) name = None"
  by (simp add: export_table_def map_of_eq_None_iff)

lemma map_of_present: "name \<in> set (export_table p h) \<Longrightarrow>
    \<exists>m f. image p h = Some m \<and> map_of (exports m) name = Some f"
  by (cases "image p h") (auto simp add: export_table_def dest: weak_map_of_SomeI)

text \<open>
  C5. For an open handle and a name that is not in the export table of its module, \<open>resolve\<close>
  returns \<open>SymbolNotFoundError\<close>: the platform's lookup returns the null pointer, whose call
  runs nothing, and a reference to that name on that handle cannot be invoked. The lookup
  changes neither the handles nor the runtime.
\<close>

theorem resolve_missing_name:
  "handle_state p h = Open \<Longrightarrow> name \<notin> set (export_table p h) \<Longrightarrow>
     fst (loader_resolve h name p) = Inl SymbolNotFoundError
     \<and> fst (dlsym (Some h) name p) = None
     \<and> call (fst (dlsym (Some h) name p)) q = None
     \<and> loader_invoke \<lparr>owner = h, target = name\<rparr> (snd (loader_resolve h name p)) = None
     \<and> handles (snd (loader_resolve h name p)) = handles p
     \<and> rt (snd (loader_resolve h name p)) = rt p"
proof -
  assume op: "handle_state p h = Open" and miss: "name \<notin> set (export_table p h)"
  from op obtain m where m: "image p h = Some m"
    using image_Some_iff_Open [of p h] by auto
  with miss have none: "map_of (exports m) name = None"
    by (rule map_of_missing)
  have d: "dlsym (Some h) name p = (None, p\<lparr>events := events p @ [EvResolve (Some h) name]\<rparr>)"
    using m none by (simp add: dlsym_def Let_def)
  have "image (p\<lparr>events := events p @ [EvResolve (Some h) name]\<rparr>) h = Some m"
    using m by (simp add: image_events)
  with d none show ?thesis
    by (simp add: loader_resolve_def loader_invoke_def call_def)
qed

theorem resolve_missing_name_witness:
  "handle_state opened0 0 = Open
   \<and> ''no_such_entry'' \<notin> set (export_table opened0 0)
   \<and> fst (loader_resolve 0 ''no_such_entry'' opened0) = Inl SymbolNotFoundError
   \<and> call (fst (dlsym (Some 0) ''no_such_entry'' opened0)) opened0 = None"
proof -
  have miss: "''no_such_entry'' \<notin> set (export_table opened0 0)"
    by (simp add: export_table_def image_opened0 libEmpty_def)
  show ?thesis
    using resolve_missing_name [OF handle_state_opened0 miss, of opened0] miss
    by (simp add: handle_state_opened0 call_def)
qed

text \<open>
  C6. For a path at which there is no file, or a file that is not a module, or a module with
  unresolved dependencies, \<open>open\<close> returns \<open>LoadError\<close> in either mode and no handle: the
  table of handles and the state of every handle are unchanged. A handle is returned only for
  an existing valid module.
\<close>

theorem open_invalid_path:
  "(fs p path = None \<or> fs p path = Some NotAModule
      \<or> (\<exists>m. fs p path = Some (Module m) \<and> \<not> deps_ok m) \<longrightarrow>
        fst (loader_open path flag p) = Inl LoadError
        \<and> fst (dlopen path flag p) = None
        \<and> handles (snd (loader_open path flag p)) = handles p
        \<and> handle_state (snd (loader_open path flag p)) h = handle_state p h)
   \<and> ((\<exists>h. fst (loader_open path flag p) = Inr h) \<longrightarrow>
        (\<exists>m. fs p path = Some (Module m) \<and> deps_ok m))"
  by (auto simp add: loader_open_def dlopen_def loadable_def handle_state_def Let_def
      split: option.splits fs_entry.splits if_splits)

theorem open_invalid_path_witness:
  "fs process_nolib ''../2-shared/libEmpty.dylib'' = None
   \<and> fst (loader_open ''../2-shared/libEmpty.dylib'' RTLD_NOW process_nolib) = Inl LoadError
   \<and> handles (snd (loader_open ''../2-shared/libEmpty.dylib'' RTLD_NOW process_nolib)) = []
   \<and> fst (loader_open ''../2-shared/libEmpty.dylib'' RTLD_NOW process0) = Inr 0"
proof -
  have a: "fs process_nolib ''../2-shared/libEmpty.dylib'' = None"
    by (simp add: process_nolib_def)
  have b: "handles process_nolib = []"
    by (simp add: process_nolib_def)
  have c: "fst (loader_open ''../2-shared/libEmpty.dylib'' RTLD_NOW process0) = Inr 0"
    by (simp add: loader_open_def dlopen_def loadable_def process0_def libEmpty_def)
  show ?thesis
    using open_invalid_path [of process_nolib "''../2-shared/libEmpty.dylib''" RTLD_NOW 0] a b c
    by simp
qed

text \<open>
  C7. For an open handle and an exported name, resolving the name twice in a row gives the
  same result both times, a reference to that name on that handle; two references so obtained
  give the same result and the same effects when invoked in any process state. Resolving changes
  neither the handles nor the runtime.
\<close>

theorem resolve_idempotent:
  "handle_state p h = Open \<Longrightarrow> name \<in> set (export_table p h) \<Longrightarrow>
     fst (loader_resolve h name p) = Inr \<lparr>owner = h, target = name\<rparr>
     \<and> fst (loader_resolve h name (snd (loader_resolve h name p))) = fst (loader_resolve h name p)
     \<and> (\<forall>r1 r2. fst (loader_resolve h name p) = Inr r1
           \<and> fst (loader_resolve h name (snd (loader_resolve h name p))) = Inr r2
           \<longrightarrow> loader_invoke r1 q = loader_invoke r2 q)
     \<and> handles (snd (loader_resolve h name p)) = handles p
     \<and> rt (snd (loader_resolve h name p)) = rt p"
proof -
  assume "name \<in> set (export_table p h)"
  then obtain m f where m: "image p h = Some m" and f: "map_of (exports m) name = Some f"
    using map_of_present by blast
  have d: "dlsym (Some h) name p =
        (Some \<lparr>owner = h, target = name\<rparr>, p\<lparr>events := events p @ [EvResolve (Some h) name]\<rparr>)"
    using m f by (simp add: dlsym_def Let_def)
  have "image (p\<lparr>events := events p @ [EvResolve (Some h) name]\<rparr>) h = Some m"
    using m by (simp add: image_events)
  then have d2: "fst (dlsym (Some h) name (p\<lparr>events := events p @ [EvResolve (Some h) name]\<rparr>)) =
        Some \<lparr>owner = h, target = name\<rparr>"
    using f by (simp add: dlsym_def Let_def)
  have r2: "fst (loader_resolve h name (p\<lparr>events := events p @ [EvResolve (Some h) name]\<rparr>)) =
        Inr \<lparr>owner = h, target = name\<rparr>"
    using d2 by (simp add: fst_loader_resolve)
  show ?thesis
    using d r2 by (simp add: loader_resolve_def)
qed

theorem resolve_idempotent_witness:
  "handle_state opened0 0 = Open
   \<and> ''empty_test'' \<in> set (export_table opened0 0)
   \<and> fst (loader_resolve 0 ''empty_test'' opened0) = Inr \<lparr>owner = 0, target = ''empty_test''\<rparr>
   \<and> fst (loader_resolve 0 ''empty_test'' (snd (loader_resolve 0 ''empty_test'' opened0)))
       = Inr \<lparr>owner = 0, target = ''empty_test''\<rparr>"
proof -
  have ex: "''empty_test'' \<in> set (export_table opened0 0)"
    by (simp add: export_table_def image_opened0 libEmpty_def)
  show ?thesis
    using resolve_idempotent [OF handle_state_opened0 ex, of opened0] ex
    by (simp add: handle_state_opened0)
qed

lemma invoke_runs_entry:
  "image p h = Some m \<Longrightarrow> map_of (exports m) name = Some f \<Longrightarrow>
   loader_invoke \<lparr>owner = h, target = name\<rparr> p =
     Some (fst (f (rt p)),
           p\<lparr>rt := snd (f (rt p)), events := events p @ [EvInvoke \<lparr>owner = h, target = name\<rparr>]\<rparr>)"
  by (simp add: loader_invoke_def call_def split: prod.split)

lemma main_bootstrap_first:
  "preceded_by (StepInvoke ''run_haxe'') (StepInvoke ''empty_test'') (map step_of (main_trace q))"
  using main_trace_cases [of q] by auto

text \<open>
  C8, as stated, fails: right after the library has been opened, with \<open>run_haxe\<close> never
  invoked and the Haxe runtime not started, \<open>empty_test\<close> resolves and its invocation is not
  prevented: it returns and \<open>Empty_obj::test\<close> has run.
\<close>

theorem invoke_without_bootstrap_counterexample:
  "haxe_started (rt opened0) = False
   \<and> handle_state opened0 0 = Open
   \<and> fst (loader_resolve 0 ''empty_test'' opened0) = Inr \<lparr>owner = 0, target = ''empty_test''\<rparr>
   \<and> map_option fst (loader_invoke \<lparr>owner = 0, target = ''empty_test''\<rparr> opened0) = Some Void
   \<and> map_option (stdout \<circ> rt \<circ> snd) (loader_invoke \<lparr>owner = 0, target = ''empty_test''\<rparr> opened0)
       = Some [Trace ''hello test function'']
   \<and> map_option (haxe_started \<circ> rt \<circ> snd)
        (loader_invoke \<lparr>owner = 0, target = ''empty_test''\<rparr> opened0) = Some False
   \<and> empty_test runtime0 = runtime0\<lparr>stdout := [Trace ''hello test function'']\<rparr>"
proof -
  have rt0: "rt opened0 = runtime0"
    by (simp add: opened0_eq process0_def)
  have ex: "map_of (exports libEmpty) ''empty_test'' = Some (\<lambda>s. (Void, empty_test s))"
    by (simp add: libEmpty_def)
  have res: "fst (loader_resolve 0 ''empty_test'' opened0) = Inr \<lparr>owner = 0, target = ''empty_test''\<rparr>"
    using ex by (simp add: fst_loader_resolve dlsym_def image_opened0 Let_def)
  have et: "empty_test runtime0 = runtime0\<lparr>stdout := [Trace ''hello test function'']\<rparr>"
    by (simp add: empty_test_def Empty_obj_test_def runtime0_def)
  show ?thesis
    using res et
    by (simp add: invoke_runs_entry [OF image_opened0 ex] rt0 handle_state_opened0)
      (simp add: runtime0_def)
qed

text \<open>
  C8, amended. There is no initialized flag: \<open>empty_test\<close> calls \<open>Empty_obj::test\<close> in every
  state of the runtime, and invoking a reference runs the entry point whenever the handle is
  open and exports the name, whatever the runtime state. That the bootstrap runs first is the
  caller's doing: in every execution of \<open>main\<close>, no invocation of \<open>empty_test\<close> comes before
  the invocation of \<open>run_haxe\<close>.
\<close>

theorem bootstrap_first_by_call_order:
  "empty_test s = Empty_obj_test s
   \<and> (image p h = Some m \<and> map_of (exports m) name = Some f \<longrightarrow>
        loader_invoke \<lparr>owner = h, target = name\<rparr> p =
          Some (fst (f (rt p)),
                p\<lparr>rt := snd (f (rt p)),
                  events := events p @ [EvInvoke \<lparr>owner = h, target = name\<rparr>]\<rparr>))
   \<and> preceded_by (StepInvoke ''run_haxe'') (StepInvoke ''empty_test'') (map step_of (main_trace q))"
  using invoke_runs_entry [of p h m name f] main_bootstrap_first [of q]
  by (simp add: empty_test_def)

theorem bootstrap_first_by_call_order_witness:
  "image opened0 0 = Some libEmpty
   \<and> map_of (exports libEmpty) ''empty_test'' = Some (\<lambda>s. (Void, empty_test s))
   \<and> map_option fst (loader_invoke \<lparr>owner = 0, target = ''empty_test''\<rparr> opened0) = Some Void
   \<and> preceded_by (StepInvoke ''run_haxe'') (StepInvoke ''empty_test'')
        (map step_of (main_trace process0))
   \<and> StepInvoke ''empty_test'' \<in> set (map step_of (main_trace process0))"
proof -
  have ex: "map_of (exports libEmpty) ''empty_test'' = Some (\<lambda>s. (Void, empty_test s))"
    by (simp add: libEmpty_def)
  show ?thesis
    using bootstrap_first_by_call_order [of runtime0 opened0 0 libEmpty "''empty_test''"
        "\<lambda>s. (Void, empty_test s)" process0] image_opened0 ex
    by (simp add: main_trace_process0)
qed

end
